theory Spec2Isabelle
  imports Complex_Main "HOL-Library.AList" "HOL-Library.Word"
begin

section \<open>Strings as the client code sees them\<close>

text \<open>
  A string of the TypeScript sources is modelled as a HOL \<^typ>\<open>string\<close>: a list of
  code units below 256 (ASCII and Latin-1). All literals of the sources are ASCII.

  \<^verbatim>\<open>String.prototype.trim\<close> strips white space and line terminators from both ends; in
  this range they are TAB, LF, VT, FF, CR, SPACE and NBSP. The regular expression class
  \<^verbatim>\<open>\s\<close> matches the same characters.
\<close>

definition isWhiteSpace :: "char \<Rightarrow> bool" where
  "isWhiteSpace c = ((of_char c :: nat) \<in> {9, 10, 11, 12, 13, 32, 160})"

definition trim :: "string \<Rightarrow> string" where
  "trim s = rev (dropWhile isWhiteSpace (rev (dropWhile isWhiteSpace s)))"

text \<open>
  \<^verbatim>\<open>String.prototype.toLowerCase\<close> on code units below 256: the letters A-Z and the
  Latin-1 capitals U+00C0 to U+00DE (the multiplication sign U+00D7 apart) move up by 32.
\<close>

definition lowerChar :: "char \<Rightarrow> char" where
  "lowerChar c =
     (let n = (of_char c :: nat)
      in if (65 \<le> n \<and> n \<le> 90) \<or> (192 \<le> n \<and> n \<le> 222 \<and> n \<noteq> 215)
         then char_of (n + 32) else c)"

definition toLowerCase :: "string \<Rightarrow> string" where
  "toLowerCase s = map lowerChar s"

subsection \<open>Regular expressions\<close>

text \<open>
  The sources validate input with anchored regular expressions (\<^verbatim>\<open>/^...$/.test(s)\<close>).
  They are modelled by a small expression type and a matcher that consumes the
  string one character at a time; \<open>test r s\<close> holds iff the whole of \<open>s\<close> matches \<open>r\<close>.
\<close>

datatype regexp =
    Never
  | Empty
  | Class "char \<Rightarrow> bool"
  | Then regexp regexp
  | Or regexp regexp
  | Many regexp

fun acceptsEmpty :: "regexp \<Rightarrow> bool" where
  "acceptsEmpty Never = False"
| "acceptsEmpty Empty = True"
| "acceptsEmpty (Class P) = False"
| "acceptsEmpty (Then r q) = (acceptsEmpty r \<and> acceptsEmpty q)"
| "acceptsEmpty (Or r q) = (acceptsEmpty r \<or> acceptsEmpty q)"
| "acceptsEmpty (Many r) = True"

fun after :: "char \<Rightarrow> regexp \<Rightarrow> regexp" where
  "after c Never = Never"
| "after c Empty = Never"
| "after c (Class P) = (if P c then Empty else Never)"
| "after c (Then r q) =
     (if acceptsEmpty r then Or (Then (after c r) q) (after c q) else Then (after c r) q)"
| "after c (Or r q) = Or (after c r) (after c q)"
| "after c (Many r) = Then (after c r) (Many r)"

definition test :: "regexp \<Rightarrow> string \<Rightarrow> bool" where
  "test r s = acceptsEmpty (fold after s r)"

text \<open>\<^verbatim>\<open>r+\<close>, \<^verbatim>\<open>r{n}\<close> and \<^verbatim>\<open>r{n,}\<close>.\<close>

definition oneOrMore :: "regexp \<Rightarrow> regexp" where
  "oneOrMore r = Then r (Many r)"

fun times :: "nat \<Rightarrow> regexp \<Rightarrow> regexp" where
  "times 0 r = Empty"
| "times (Suc n) r = Then r (times n r)"

definition atLeast_times :: "nat \<Rightarrow> regexp \<Rightarrow> regexp" where
  "atLeast_times n r = Then (times n r) (Many r)"

text \<open>Character classes: a range \<^verbatim>\<open>a-z\<close> and a set of single characters.\<close>

definition charRange :: "char \<Rightarrow> char \<Rightarrow> char \<Rightarrow> bool" where
  "charRange lo hi c = ((of_char lo :: nat) \<le> of_char c \<and> (of_char c :: nat) \<le> of_char hi)"

definition isDigit :: "char \<Rightarrow> bool" where
  "isDigit c = charRange (CHR ''0'') (CHR ''9'') c"

definition isAlpha :: "char \<Rightarrow> bool" where
  "isAlpha c = (charRange (CHR ''a'') (CHR ''z'') c \<or> charRange (CHR ''A'') (CHR ''Z'') c)"

section \<open>The OTP login flow (src/context/UserAuthContext.tsx)\<close>

subsection \<open>Hashing\<close>

text \<open>
  \<^verbatim>\<open>bufferToHex\<close> renders every byte as two lower-case hexadecimal digits
  (\<^verbatim>\<open>byte.toString(16).padStart(2, "0")\<close>).
\<close>

definition hexDigit :: "nat \<Rightarrow> char" where
  "hexDigit n = (if n < 10 then char_of (48 + n) else char_of (87 + n))"

definition bufferToHex :: "8 word list \<Rightarrow> string" where
  "bufferToHex bytes =
     concat (map (\<lambda>byte. [hexDigit (unat byte div 16), hexDigit (unat byte mod 16)]) bytes)"

text \<open>
  \<^verbatim>\<open>TextEncoder.encode\<close> is UTF-8: a code unit below 128 is one byte, one from 128
  to 255 is two bytes.
\<close>

definition encode :: "string \<Rightarrow> 8 word list" where
  "encode s =
     concat (map (\<lambda>c. let n = (of_char c :: nat)
                        in if n < 128 then [of_nat n]
                           else [of_nat (192 + n div 64), of_nat (128 + n mod 64)]) s)"

text \<open>
  \<^verbatim>\<open>hashOtp\<close>. The digest \<^verbatim>\<open>crypto.subtle.digest("SHA-256", data)\<close> is a primitive of
  the platform, not of this repository: it is the parameter \<open>sha\<close>, a function from
  bytes to bytes, and every result below holds for any such function.
\<close>

definition hashOtp :: "(8 word list \<Rightarrow> 8 word list) \<Rightarrow> string \<Rightarrow> string \<Rightarrow> string" where
  "hashOtp sha otp contact =
     (let normalized = trim (toLowerCase contact) @ ''::'' @ otp;
          data = encode normalized;
          digest = sha data
      in bufferToHex digest)"

definition TEST_OTP :: string where
  "TEST_OTP = ''123456''"

definition generateOtp :: string where
  "generateOtp = TEST_OTP"

subsection \<open>Contact validation\<close>

text \<open>
  The local part of an e-mail address is one or more characters of
  \<^verbatim>\<open>[a-zA-Z0-9_!#$%&'*+/=?`{|}~^.-]\<close>.
\<close>

definition isLocalChar :: "char \<Rightarrow> bool" where
  "isLocalChar c = (isAlpha c \<or> isDigit c \<or> c \<in> set ''_!#$%&'' \<or> of_char c = (39 :: nat)
     \<or> c \<in> set ''*+/=?`{|}~^.-'')"

definition isLabelChar :: "char \<Rightarrow> bool" where
  "isLabelChar c = (isAlpha c \<or> isDigit c \<or> c = CHR ''-'')"

text \<open>
  \<^verbatim>\<open>/^(?:[a-zA-Z0-9_!#$%&'*+/=?`{|}~^.-]+)@(?:[a-zA-Z0-9-]+\.)+[a-zA-Z]{2,}$/u\<close>
\<close>

definition emailRegexp :: regexp where
  "emailRegexp =
     Then (oneOrMore (Class isLocalChar))
       (Then (Class (\<lambda>c. c = CHR ''@''))
         (Then (oneOrMore (Then (oneOrMore (Class isLabelChar)) (Class (\<lambda>c. c = CHR ''.''))))
           (atLeast_times 2 (Class isAlpha))))"

definition isValidEmail :: "string \<Rightarrow> bool" where
  "isValidEmail v = test emailRegexp (trim v)"

text \<open>\<^verbatim>\<open>/^[6-9]\d{9}$/\<close>, after \<^verbatim>\<open>value.trim().replace(/[\s-]/g, '')\<close>.\<close>

definition phoneRegexp :: regexp where
  "phoneRegexp = Then (Class (charRange (CHR ''6'') (CHR ''9''))) (times 9 (Class isDigit))"

definition isValidPhone :: "string \<Rightarrow> bool" where
  "isValidPhone v =
     test phoneRegexp (filter (\<lambda>c. \<not> (isWhiteSpace c \<or> c = CHR ''-'')) (trim v))"

text \<open>\<^verbatim>\<open>/^[0-9]{6}$/\<close>\<close>

definition otpRegexp :: regexp where
  "otpRegexp = times 6 (Class isDigit)"

subsection \<open>Responses of the backend handle\<close>

text \<open>
  Every call on the backend handle resolves to an object \<^verbatim>\<open>{ data, error }\<close>, which the
  sources destructure. The error object carries a code and a message.
\<close>

record pg_error =
  code :: string
  message :: string

record 'a response =
  data :: "'a option"
  error :: "pg_error option"

subsection \<open>State of the provider\<close>

datatype SupabaseUser = SupabaseUser (uid: string)

text \<open>A row of the \<^verbatim>\<open>users\<close> table, as far as the flow reads and writes it.\<close>

record user_row =
  row_id :: string
  row_email :: "string option"
  row_phone :: "string option"
  is_verified :: bool
  last_login_at :: int

record UserProfile =
  profile_id :: string
  email :: "string option"
  phone :: "string option"
  profile_contact :: string
  lastLoginAt :: int
  authUser :: "SupabaseUser option"

record PendingVerification =
  contact :: string
  otpHash :: string
  expiresAt :: int
  attempts :: int

text \<open>
  The two \<^verbatim>\<open>useState\<close> cells of \<^verbatim>\<open>UserAuthProvider\<close> and the entry of local storage
  under \<^verbatim>\<open>USER_AUTH_STORAGE_KEY\<close>. Instants are milliseconds since the epoch, as
  \<^verbatim>\<open>Date.now()\<close> returns them. Toasts and debug output are not part of the state.
\<close>

record auth_state =
  user :: "UserProfile option"
  pending :: "PendingVerification option"
  storage :: "UserProfile option"

text \<open>
  What the backend answers during \<^verbatim>\<open>verifyOtp\<close>: whether the handle is configured, the
  current session, the result of an anonymous sign-in, the row of \<^verbatim>\<open>users\<close> with a given
  id, and the response to the insertion of a row.
\<close>

record auth_backend =
  isSupabaseConfigured :: bool
  getSession :: "SupabaseUser option"
  signInAnonymously :: "SupabaseUser response"
  selectUser :: "string \<Rightarrow> user_row option"
  insertUser :: "user_row \<Rightarrow> user_row response"

text \<open>Every \<^verbatim>\<open>throw new Error(...)\<close> of the flow is a value; \<open>errorMessage\<close> gives its text.\<close>

datatype otp_error =
    InvalidContact
  | RequestNewOtp
  | OtpExpired
  | TooManyAttempts
  | OtpFormat
  | IncorrectOtp
  | DatabaseNotConfigured
  | SessionNotEstablished
  | CreateUserFailed

fun errorMessage :: "otp_error \<Rightarrow> string" where
  "errorMessage InvalidContact = ''Enter a valid mobile number or email address.''"
| "errorMessage RequestNewOtp = ''Please request a new OTP for this contact.''"
| "errorMessage OtpExpired = ''OTP has expired. Please request a new code.''"
| "errorMessage TooManyAttempts = ''Too many incorrect attempts. Please request a new OTP.''"
| "errorMessage OtpFormat = ''Enter the 6-digit OTP sent to you.''"
| "errorMessage IncorrectOtp = ''Incorrect OTP. Please try again.''"
| "errorMessage DatabaseNotConfigured = ''Database not configured. Please try again later.''"
| "errorMessage SessionNotEstablished = ''Authentication session could not be established.''"
| "errorMessage CreateUserFailed = ''Failed to create user account. Please try again.''"

subsection \<open>requestOtp\<close>

text \<open>
  \<open>now\<close> is the value of \<^verbatim>\<open>Date.now()\<close> read by the call. The result is the outcome
  (\<open>Inl\<close> the error thrown) and the state after the call.
\<close>

definition requestOtp ::
  "(8 word list \<Rightarrow> 8 word list) \<Rightarrow> int \<Rightarrow> string \<Rightarrow> auth_state \<Rightarrow> (otp_error + unit) \<times> auth_state"
where
  "requestOtp sha now contact0 st =
     (let trimmed = trim contact0
      in if \<not> isValidEmail trimmed \<and> \<not> isValidPhone trimmed then (Inl InvalidContact, st)
         else
           let otp = generateOtp;
               otpHash' = hashOtp sha otp trimmed;
               expiresAt' = now + 5 * 60 * 1000
           in (Inr (),
               st\<lparr>pending := Some \<lparr>contact = trimmed, otpHash = otpHash',
                                    expiresAt = expiresAt', attempts = 0\<rparr>\<rparr>))"

subsection \<open>verifyOtp\<close>

text \<open>
  A call of \<^verbatim>\<open>verifyOtp\<close> reads the pending verification of the latest render, and
  \<open>now\<close> is the value of \<^verbatim>\<open>Date.now()\<close> it reads. Consecutive calls are modelled by
  passing the state of one call on to the next. The checks come in the order of the
  source; each \<^verbatim>\<open>setPending\<close> before a \<^verbatim>\<open>throw\<close> is in the state returned with the error.

  First the part of \<^verbatim>\<open>verifyOtp\<close> after the code has matched: it establishes the session,
  finds or creates the row of the user, and builds the profile. The update of an
  existing row is sent to the backend and its response is ignored.
\<close>

definition establishSession :: "auth_backend \<Rightarrow> otp_error + SupabaseUser" where
  "establishSession be =
     (case getSession be of
        None \<Rightarrow>
          (let r = signInAnonymously be
           in if error r \<noteq> None \<or> data r = None then Inl SessionNotEstablished
              else Inr (the (data r)))
      | Some u \<Rightarrow> Inr u)"

definition findOrCreateUser ::
  "auth_backend \<Rightarrow> int \<Rightarrow> string \<Rightarrow> SupabaseUser \<Rightarrow> otp_error + string" where
  "findOrCreateUser be now trimmedContact au =
     (let isEmail = isValidEmail trimmedContact;
          isPhone = isValidPhone trimmedContact
      in case selectUser be (uid au) of
           Some existingUser \<Rightarrow> Inr (row_id existingUser)
         | None \<Rightarrow>
             (let r = insertUser be
                        \<lparr>row_id = uid au,
                         row_email = (if isEmail then Some trimmedContact else None),
                         row_phone = (if isPhone then Some trimmedContact else None),
                         is_verified = True, last_login_at = now\<rparr>
              in case (error r, data r) of
                   (None, Some newUser) \<Rightarrow> Inr (row_id newUser)
                 | _ \<Rightarrow> Inl CreateUserFailed))"

definition verifyOtp ::
  "auth_backend \<Rightarrow> (8 word list \<Rightarrow> 8 word list) \<Rightarrow> int \<Rightarrow> string \<Rightarrow> string \<Rightarrow> auth_state
     \<Rightarrow> (otp_error + unit) \<times> auth_state"
where
  "verifyOtp be sha now contact0 otp st =
     (let trimmedContact = trim contact0
      in case pending st of
           None \<Rightarrow> (Inl RequestNewOtp, st)
         | Some p \<Rightarrow>
             if contact p \<noteq> trimmedContact then (Inl RequestNewOtp, st)
             else if now > expiresAt p then (Inl OtpExpired, st\<lparr>pending := None\<rparr>)
             else if attempts p \<ge> 4 then (Inl TooManyAttempts, st\<lparr>pending := None\<rparr>)
             else if \<not> test otpRegexp (trim otp) then (Inl OtpFormat, st)
             else if hashOtp sha (trim otp) trimmedContact \<noteq> otpHash p
               then (Inl IncorrectOtp,
                     st\<lparr>pending := map_option (\<lambda>prev. prev\<lparr>attempts := attempts prev + 1\<rparr>)
                                      (pending st)\<rparr>)
             else if \<not> isSupabaseConfigured be then (Inl DatabaseNotConfigured, st)
             else
               (case establishSession be of
                  Inl e \<Rightarrow> (Inl e, st)
                | Inr au \<Rightarrow>
                   (case findOrCreateUser be now trimmedContact au of
                      Inl e \<Rightarrow> (Inl e, st)
                    | Inr userId \<Rightarrow>
                        (let profile =
                               \<lparr>profile_id = userId,
                                email = (if isValidEmail trimmedContact
                                         then Some trimmedContact else None),
                                phone = (if isValidPhone trimmedContact
                                         then Some trimmedContact else None),
                                profile_contact = trimmedContact,
                                lastLoginAt = now,
                                authUser = Some au\<rparr>
                         in (Inr (),
                             st\<lparr>user := Some profile, storage := Some profile,
                                pending := None\<rparr>)))))"

definition logout :: "auth_state \<Rightarrow> auth_state" where
  "logout st = st\<lparr>user := None, storage := None\<rparr>"

definition initialState :: auth_state where
  "initialState = \<lparr>user = None, pending = None, storage = None\<rparr>"

text \<open>A run of consecutive calls of \<^verbatim>\<open>verifyOtp\<close> for one contact, each at its own instant.\<close>

fun verifyOtps ::
  "auth_backend \<Rightarrow> (8 word list \<Rightarrow> 8 word list) \<Rightarrow> string \<Rightarrow> (int \<times> string) list \<Rightarrow> auth_state
     \<Rightarrow> (otp_error + unit) list \<times> auth_state"
where
  "verifyOtps be sha c [] st = ([], st)"
| "verifyOtps be sha c ((t, otp) # calls) st =
     (let (r, st') = verifyOtp be sha t c otp st;
          (rs, st'') = verifyOtps be sha c calls st'
      in (r # rs, st''))"

section \<open>The entity access facade (src/lib/realtime-db.ts)\<close>

text \<open>
  A method of \<^verbatim>\<open>RealtimeDatabase\<close> takes the flag \<^verbatim>\<open>isSupabaseConfigured\<close> and the
  store: the function that answers the one query the method sends (for a read by id,
  from the id to the response). Its result is the outcome of the promise (\<open>Inl\<close> the
  error thrown, \<open>Inr\<close> the value returned) and the lines written with
  \<^verbatim>\<open>console.error\<close>. Rows other than products are not inspected by the facade and
  stay polymorphic.
\<close>

record Product =
  id' :: string
  name :: string
  brand :: string
  category :: string
  color :: "string list"
  description :: "string option"
  specifications :: "(string \<times> string) list"
  base_price :: real
  unit_type :: string
  stock_quantity :: int
  image_url :: "string option"
  brochure_url :: "string option"
  is_active :: bool
  created_by :: "string option"
  created_at :: string
  updated_at :: string

datatype log_entry = ConsoleError string pg_error

type_synonym 'a outcome = "(pg_error + 'a) \<times> log_entry list"

text \<open>The shape shared by the list reads: \<^verbatim>\<open>return data || []\<close>.\<close>

definition listRead :: "string \<Rightarrow> bool \<Rightarrow> 'a list response \<Rightarrow> 'a list outcome" where
  "listRead label cfg r =
     (if \<not> cfg then (Inr [], [])
      else case error r of
             Some e \<Rightarrow> (Inr [], [ConsoleError label e])
           | None \<Rightarrow> (Inr (case data r of None \<Rightarrow> [] | Some rows \<Rightarrow> rows), []))"

text \<open>The shape shared by the writes that return the row: \<^verbatim>\<open>throw error\<close>.\<close>

definition rowWrite :: "string \<Rightarrow> bool \<Rightarrow> 'a response \<Rightarrow> 'a option outcome" where
  "rowWrite label cfg r =
     (if \<not> cfg then (Inr None, [])
      else case error r of
             Some e \<Rightarrow> (Inl e, [ConsoleError label e])
           | None \<Rightarrow> (Inr (data r), []))"

definition truthy :: "string option \<Rightarrow> bool" where
  "truthy v = (case v of None \<Rightarrow> False | Some x \<Rightarrow> x \<noteq> [])"

definition getProducts :: "bool \<Rightarrow> Product list response \<Rightarrow> Product list outcome" where
  "getProducts cfg store = listRead ''Error fetching products:'' cfg store"

definition getProductById ::
  "bool \<Rightarrow> (string \<Rightarrow> Product response) \<Rightarrow> string \<Rightarrow> Product option outcome" where
  "getProductById cfg store i =
     (if \<not> cfg then (Inr None, [])
      else let r = store i
           in case error r of
                Some e \<Rightarrow> (Inr None, [ConsoleError ''Error fetching product:'' e])
              | None \<Rightarrow> (Inr (data r), []))"

definition createProduct ::
  "bool \<Rightarrow> ('new \<Rightarrow> Product response) \<Rightarrow> 'new \<Rightarrow> Product option outcome" where
  "createProduct cfg store product = rowWrite ''Error creating product:'' cfg (store product)"

definition updateProduct ::
  "bool \<Rightarrow> (string \<Rightarrow> 'upd \<Rightarrow> Product response) \<Rightarrow> string \<Rightarrow> 'upd \<Rightarrow> Product option outcome"
where
  "updateProduct cfg store i updates = rowWrite ''Error updating product:'' cfg (store i updates)"

definition deleteProduct :: "bool \<Rightarrow> (string \<Rightarrow> unit response) \<Rightarrow> string \<Rightarrow> bool outcome" where
  "deleteProduct cfg store i =
     (if \<not> cfg then (Inr False, [])
      else case error (store i) of
             Some e \<Rightarrow> (Inl e, [ConsoleError ''Error deleting product:'' e])
           | None \<Rightarrow> (Inr True, []))"

text \<open>
  \<^verbatim>\<open>getOrders\<close> and \<^verbatim>\<open>getInquiries\<close> restrict the query to one user when \<^verbatim>\<open>userId\<close> is
  truthy; the store is given the restriction.
\<close>

definition getOrders ::
  "bool \<Rightarrow> (string option \<Rightarrow> 'order list response) \<Rightarrow> string option \<Rightarrow> 'order list outcome" where
  "getOrders cfg store userId =
     listRead ''Error fetching orders:'' cfg (store (if truthy userId then userId else None))"

definition getOrderById ::
  "bool \<Rightarrow> (string \<Rightarrow> 'order response) \<Rightarrow> string \<Rightarrow> 'order option outcome" where
  "getOrderById cfg store i =
     (if \<not> cfg then (Inr None, [])
      else let r = store i
           in case error r of
                Some e \<Rightarrow> (Inr None, [ConsoleError ''Error fetching order:'' e])
              | None \<Rightarrow> (Inr (data r), []))"

definition createOrder ::
  "bool \<Rightarrow> ('new \<Rightarrow> 'order response) \<Rightarrow> 'new \<Rightarrow> 'order option outcome" where
  "createOrder cfg store order = rowWrite ''Error creating order:'' cfg (store order)"

definition updateOrderStatus ::
  "bool \<Rightarrow> (string \<Rightarrow> string \<times> string option \<Rightarrow> 'order response) \<Rightarrow> string \<Rightarrow> string
     \<Rightarrow> string option \<Rightarrow> 'order option outcome"
where
  "updateOrderStatus cfg store i status paymentStatus =
     (let updates = (status, if truthy paymentStatus then paymentStatus else None)
      in rowWrite ''Error updating order status:'' cfg (store i updates))"

definition getInquiries ::
  "bool \<Rightarrow> (string option \<Rightarrow> 'inquiry list response) \<Rightarrow> string option \<Rightarrow> 'inquiry list outcome"
where
  "getInquiries cfg store userId =
     listRead ''Error fetching inquiries:'' cfg (store (if truthy userId then userId else None))"

definition createInquiry ::
  "bool \<Rightarrow> ('new \<times> string \<Rightarrow> 'inquiry response) \<Rightarrow> 'new \<Rightarrow> 'inquiry option outcome" where
  "createInquiry cfg store inquiry =
     rowWrite ''Error creating inquiry:'' cfg (store (inquiry, ''pending''))"

definition updateInquiryStatus ::
  "bool \<Rightarrow> (string \<Rightarrow> string \<Rightarrow> 'inquiry response) \<Rightarrow> string \<Rightarrow> string \<Rightarrow> 'inquiry option outcome"
where
  "updateInquiryStatus cfg store i status =
     rowWrite ''Error updating inquiry status:'' cfg (store i status)"

text \<open>\<^verbatim>\<open>getUserProfile\<close> alone exempts the error code \<^verbatim>\<open>PGRST116\<close>.\<close>

definition getUserProfile ::
  "bool \<Rightarrow> (string \<Rightarrow> 'profile response) \<Rightarrow> string \<Rightarrow> 'profile option outcome" where
  "getUserProfile cfg store userId =
     (if \<not> cfg then (Inr None, [])
      else let r = store userId
           in case error r of
                Some e \<Rightarrow>
                  if code e \<noteq> ''PGRST116''
                  then (Inr None, [ConsoleError ''Error fetching user profile:'' e])
                  else (Inr (data r), [])
              | None \<Rightarrow> (Inr (data r), []))"

definition upsertUserProfile ::
  "bool \<Rightarrow> (string \<times> 'partial \<times> bool \<Rightarrow> 'profile response) \<Rightarrow> string \<Rightarrow> 'partial
     \<Rightarrow> 'profile option outcome"
where
  "upsertUserProfile cfg store userId profile =
     rowWrite ''Error upserting user profile:'' cfg (store (userId, profile, True))"

section \<open>The change-feed subscriptions (src/lib/realtime-db.ts)\<close>

text \<open>
  The client library is not part of the sources; it is modelled as its realtime client
  behaves. A channel has a topic, the listeners added with \<^verbatim>\<open>.on('postgres_changes', ...)\<close>
  (the table, the row filter and the callback the listener forwards to), and is joined
  or not. A handle is the position of the channel among those the client has made.
\<close>

record 'cb listener =
  table :: string
  rowFilter :: "string option"
  callback :: 'cb

record 'cb channel =
  topic :: string
  listeners :: "'cb listener list"
  joined :: bool

text \<open>
  \<^verbatim>\<open>RealtimeDatabase.channels\<close> is a \<^verbatim>\<open>Map\<close> from channel name to handle: \<^verbatim>\<open>set\<close> on a
  name that is present replaces its handle, which is what \<open>AList.update\<close> does.
\<close>

record 'cb RealtimeDatabase =
  channels :: "(string \<times> nat) list"
  opened :: "'cb channel list"

definition emptyDatabase :: "'cb RealtimeDatabase" where
  "emptyDatabase = \<lparr>channels = [], opened = []\<rparr>"

text \<open>
  The function a subscribe call returns: \<^verbatim>\<open>() => {}\<close>, or the closure over the channel and
  its name.
\<close>

datatype unsubscribe = Noop | Unsubscribe string nat

text \<open>\<^verbatim>\<open>channel.unsubscribe()\<close>; leaving a channel twice changes nothing.\<close>

definition leave :: "nat \<Rightarrow> 'cb channel list \<Rightarrow> 'cb channel list" where
  "leave h chans = (if h < length chans then chans[h := (chans ! h)\<lparr>joined := False\<rparr>] else chans)"

text \<open>
  \<^verbatim>\<open>supabase.channel(name)\<close> returns the channel that is open under the topic when
  there is one, and makes a new channel otherwise.
\<close>

definition findChannel :: "string \<Rightarrow> 'cb channel list \<Rightarrow> nat option" where
  "findChannel channelName chans =
     List.find (\<lambda>h. joined (chans ! h) \<and> topic (chans ! h) = channelName) [0..<length chans]"

text \<open>
  The tail the three subscribe methods share, from \<^verbatim>\<open>supabase.channel(channelName)\<close> on:
  the listener is added to the channel, \<^verbatim>\<open>.subscribe()\<close> joins a channel that is not
  joined yet, and the handle is stored in the registry under the name.
\<close>

definition openChannel ::
  "string \<Rightarrow> string \<Rightarrow> string option \<Rightarrow> 'cb \<Rightarrow> 'cb RealtimeDatabase
     \<Rightarrow> unsubscribe \<times> 'cb RealtimeDatabase"
where
  "openChannel channelName tbl flt cb db =
     (let l = \<lparr>table = tbl, rowFilter = flt, callback = cb\<rparr>
      in case findChannel channelName (opened db) of
           Some h \<Rightarrow>
             (Unsubscribe channelName h,
              db\<lparr>opened := (opened db)[h := (opened db ! h)
                                 \<lparr>listeners := listeners (opened db ! h) @ [l]\<rparr>],
                 channels := AList.update channelName h (channels db)\<rparr>)
         | None \<Rightarrow>
             (let h = length (opened db);
                  ch = \<lparr>topic = channelName, listeners = [l], joined = True\<rparr>
              in (Unsubscribe channelName h,
                  db\<lparr>opened := opened db @ [ch],
                     channels := AList.update channelName h (channels db)\<rparr>)))"

definition subscribeToProducts ::
  "bool \<Rightarrow> 'cb \<Rightarrow> 'cb RealtimeDatabase \<Rightarrow> unsubscribe \<times> 'cb RealtimeDatabase" where
  "subscribeToProducts cfg cb db =
     (if \<not> cfg then (Noop, db)
      else openChannel ''products_realtime'' ''products'' None cb db)"

definition subscribeToOrders ::
  "bool \<Rightarrow> 'cb \<Rightarrow> string option \<Rightarrow> 'cb RealtimeDatabase \<Rightarrow> unsubscribe \<times> 'cb RealtimeDatabase"
where
  "subscribeToOrders cfg cb userId db =
     (if \<not> cfg then (Noop, db)
      else
        let channelName = (if truthy userId then ''orders_'' @ the userId else ''orders_all'');
            flt = (if truthy userId then Some (''user_id=eq.'' @ the userId) else None)
        in openChannel channelName ''orders'' flt cb db)"

definition subscribeToInquiries ::
  "bool \<Rightarrow> 'cb \<Rightarrow> string option \<Rightarrow> 'cb RealtimeDatabase \<Rightarrow> unsubscribe \<times> 'cb RealtimeDatabase"
where
  "subscribeToInquiries cfg cb userId db =
     (if \<not> cfg then (Noop, db)
      else
        let channelName = (if truthy userId then ''inquiries_'' @ the userId else ''inquiries_all'');
            flt = (if truthy userId then Some (''user_id=eq.'' @ the userId) else None)
        in openChannel channelName ''inquiries'' flt cb db)"

fun runUnsubscribe :: "unsubscribe \<Rightarrow> 'cb RealtimeDatabase \<Rightarrow> 'cb RealtimeDatabase" where
  "runUnsubscribe Noop db = db"
| "runUnsubscribe (Unsubscribe channelName h) db =
     db\<lparr>opened := leave h (opened db), channels := AList.delete channelName (channels db)\<rparr>"

definition unsubscribeAll :: "'cb RealtimeDatabase \<Rightarrow> 'cb RealtimeDatabase" where
  "unsubscribeAll db = db\<lparr>opened := fold leave (map snd (channels db)) (opened db), channels := []\<rparr>"

text \<open>A subscribe call, and a sequence of them run in order.\<close>

datatype 'cb subscribe_call =
    ToProducts 'cb
  | ToOrders 'cb "string option"
  | ToInquiries 'cb "string option"

fun subscribe ::
  "bool \<Rightarrow> 'cb subscribe_call \<Rightarrow> 'cb RealtimeDatabase \<Rightarrow> unsubscribe \<times> 'cb RealtimeDatabase"
where
  "subscribe cfg (ToProducts cb) db = subscribeToProducts cfg cb db"
| "subscribe cfg (ToOrders cb userId) db = subscribeToOrders cfg cb userId db"
| "subscribe cfg (ToInquiries cb userId) db = subscribeToInquiries cfg cb userId db"

fun subscribeEach ::
  "bool \<Rightarrow> 'cb subscribe_call list \<Rightarrow> 'cb RealtimeDatabase \<Rightarrow> 'cb RealtimeDatabase" where
  "subscribeEach cfg [] db = db"
| "subscribeEach cfg (call # calls) db = subscribeEach cfg calls (snd (subscribe cfg call db))"

text \<open>The channel name a call uses when the backend is configured.\<close>

fun channelNameOf :: "'cb subscribe_call \<Rightarrow> string" where
  "channelNameOf (ToProducts cb) = ''products_realtime''"
| "channelNameOf (ToOrders cb userId) =
     (if truthy userId then ''orders_'' @ the userId else ''orders_all'')"
| "channelNameOf (ToInquiries cb userId) =
     (if truthy userId then ''inquiries_'' @ the userId else ''inquiries_all'')"

text \<open>
  A change of a row of table \<open>tbl\<close> can reach only the listeners of joined channels that
  listen to the table and whose row filter the backend finds satisfied (\<open>passes\<close>).
  Their callbacks, in order:
\<close>

definition notified :: "string \<Rightarrow> (string option \<Rightarrow> bool) \<Rightarrow> 'cb RealtimeDatabase \<Rightarrow> 'cb list" where
  "notified tbl passes db =
     concat (map (\<lambda>ch. map callback
                          (filter (\<lambda>l. table l = tbl \<and> passes (rowFilter l)) (listeners ch)))
               (filter joined (opened db)))"

section \<open>A consumer of the product feed (the Products page and ProductsManagement.tsx)\<close>

datatype event = INSERT | UPDATE | DELETE

record 'row payload =
  eventType :: event
  new :: "'row option"
  old :: "'row option"

text \<open>
  The callback passed to \<^verbatim>\<open>db.subscribeToProducts\<close>; it maps the list held in
  \<^verbatim>\<open>products\<close> to the next one.
\<close>

definition productsCallback :: "Product payload \<Rightarrow> Product list \<Rightarrow> Product list" where
  "productsCallback pl prev =
     (if eventType pl = INSERT \<and> new pl \<noteq> None then the (new pl) # prev
      else if eventType pl = UPDATE \<and> new pl \<noteq> None
        then map (\<lambda>p. if id' p = id' (the (new pl)) then the (new pl) else p) prev
      else if eventType pl = DELETE \<and> old pl \<noteq> None
        then filter (\<lambda>p. id' p \<noteq> id' (the (old pl))) prev
      else prev)"

section \<open>Sample data\<close>

text \<open>
  Concrete inputs for the examples below: a digest that stands in for SHA-256 (it
  reverses the bytes), a backend that is not configured and one that signs in
  anonymously and stores the row it is given, the state after
  \<^verbatim>\<open>requestOtp("user@example.com")\<close> at instant 1000, and a wrong attempt at instant 2000.
\<close>

definition toyDigest :: "8 word list \<Rightarrow> 8 word list" where
  "toyDigest bytes = rev bytes"

definition offlineBackend :: auth_backend where
  "offlineBackend =
     \<lparr>isSupabaseConfigured = False, getSession = None,
      signInAnonymously = \<lparr>data = None, error = None\<rparr>,
      selectUser = (\<lambda>i. None),
      insertUser = (\<lambda>r. \<lparr>data = None, error = None\<rparr>)\<rparr>"

definition liveBackend :: auth_backend where
  "liveBackend =
     \<lparr>isSupabaseConfigured = True, getSession = None,
      signInAnonymously = \<lparr>data = Some (SupabaseUser ''anon-1''), error = None\<rparr>,
      selectUser = (\<lambda>i. None),
      insertUser = (\<lambda>r. \<lparr>data = Some r, error = None\<rparr>)\<rparr>"

definition requestedState :: auth_state where
  "requestedState = snd (requestOtp toyDigest 1000 ''user@example.com'' initialState)"

definition wrongAttempt :: "auth_state \<Rightarrow> (otp_error + unit) \<times> auth_state" where
  "wrongAttempt st = verifyOtp liveBackend toyDigest 2000 ''user@example.com'' ''000000'' st"

definition afterFourWrong :: auth_state where
  "afterFourWrong =
     snd (wrongAttempt (snd (wrongAttempt (snd (wrongAttempt (snd (wrongAttempt requestedState)))))))"

definition noRowsError :: pg_error where
  "noRowsError =
     \<lparr>code = ''PGRST116'', message = ''JSON object requested, multiple (or no) rows returned''\<rparr>"

definition failing :: "pg_error \<Rightarrow> 'a response" where
  "failing e = \<lparr>data = None, error = Some e\<rparr>"

definition sampleProduct :: "string \<Rightarrow> Product" where
  "sampleProduct i =
     \<lparr>id' = i, name = ''FR Wire 6 sq mm'', brand = ''V-Guard'', category = ''House Wires'',
      color = [''Red'', ''Blue''], description = None, specifications = [],
      base_price = 95, unit_type = ''metres'', stock_quantity = 3000, image_url = None,
      brochure_url = None, is_active = True, created_by = None,
      created_at = ''2025-10-19'', updated_at = ''2025-10-19''\<rparr>"

definition requestedPending :: PendingVerification where
  "requestedPending =
     \<lparr>contact = ''user@example.com'',
      otpHash = hashOtp toyDigest ''123456'' ''user@example.com'',
      expiresAt = 301000, attempts = 0\<rparr>"

definition transportError :: pg_error where
  "transportError = \<lparr>code = ''503'', message = ''Failed to fetch''\<rparr>"

text \<open>
  What \<^verbatim>\<open>.maybeSingle()\<close> resolves to when no row matches the query: the client library
  turns the zero-rows answer of the store into an empty result without an error.
\<close>

definition noRows :: "'a response" where
  "noRows = \<lparr>data = None, error = None\<rparr>"

definition emptyStore :: "'q \<Rightarrow> 'a response" where
  "emptyStore q = noRows"

text \<open>Stores that answer every query with the given error.\<close>

definition failingStore :: "pg_error \<Rightarrow> 'q \<Rightarrow> 'a response" where
  "failingStore e q = failing e"

definition failingStore2 :: "pg_error \<Rightarrow> 'q \<Rightarrow> 'u \<Rightarrow> 'a response" where
  "failingStore2 e q u = failing e"

section \<open>An invariant of the registry\<close>

text \<open>Every joined channel is recorded in the registry under its topic.\<close>

definition tracked :: "'cb RealtimeDatabase \<Rightarrow> bool" where
  "tracked db =
     (\<forall>h < length (opened db).
        joined (opened db ! h) \<longrightarrow> map_of (channels db) (topic (opened db ! h)) = Some h)"

section \<open>Properties of the regular expressions\<close>

lemma fold_after_Never: "fold after s Never = Never"
  by (induction s) simp_all

lemma fold_after_Then_Never: "fold after s (Then Never r) = Then Never r"
  by (induction s) simp_all

lemma fold_after_Or: "fold after s (Or a b) = Or (fold after s a) (fold after s b)"
  by (induction s arbitrary: a b) simp_all

lemma test_Or: "test (Or a b) s = (test a s \<or> test b s)"
  by (simp add: test_def fold_after_Or)

lemma test_Empty: "test Empty s = (s = [])"
  by (cases s) (simp_all add: test_def fold_after_Never)

lemma test_Then_Never: "test (Then Never r) s = False"
  by (simp add: test_def fold_after_Then_Never)

lemma test_Then_Empty: "test (Then Empty r) s = test r s"
proof (cases s)
  case Nil
  then show ?thesis by (simp add: test_def)
next
  case (Cons c cs)
  have "test (Then Empty r) (c # cs) = test (Or (Then Never r) (after c r)) cs"
    by (simp add: test_def)
  also have "\<dots> = test (after c r) cs"
    by (simp add: test_Or test_Then_Never)
  also have "\<dots> = test r (c # cs)"
    by (simp add: test_def)
  finally show ?thesis using Cons by simp
qed

lemma test_Then_Class:
  "test (Then (Class P) r) s = (case s of [] \<Rightarrow> False | c # cs \<Rightarrow> P c \<and> test r cs)"
proof (cases s)
  case Nil
  then show ?thesis by (simp add: test_def)
next
  case (Cons c cs)
  have "test (Then (Class P) r) (c # cs) = test (Then (if P c then Empty else Never) r) cs"
    by (simp add: test_def)
  then show ?thesis using Cons
    by (simp add: test_Then_Empty test_Then_Never)
qed

lemma test_times_Class: "test (times n (Class P)) s = (length s = n \<and> (\<forall>c \<in> set s. P c))"
proof (induction n arbitrary: s)
  case 0
  then show ?case by (auto simp: test_Empty)
next
  case (Suc n)
  then show ?case
    by (cases s) (auto simp: test_Then_Class)
qed

lemma test_otpRegexp: "test otpRegexp s = (length s = 6 \<and> (\<forall>c \<in> set s. isDigit c))"
  by (simp add: otpRegexp_def test_times_Class)

lemma isDigit_not_space: "isDigit c \<Longrightarrow> \<not> isWhiteSpace c"
  by (auto simp: isDigit_def charRange_def isWhiteSpace_def)

lemma trim_no_space: "\<forall>c \<in> set s. \<not> isWhiteSpace c \<Longrightarrow> trim s = s"
proof -
  assume a: "\<forall>c \<in> set s. \<not> isWhiteSpace c"
  have d: "dropWhile isWhiteSpace xs = xs" if "\<forall>c \<in> set xs. \<not> isWhiteSpace c" for xs
    using that by (cases xs) simp_all
  show ?thesis using a by (simp add: trim_def d)
qed

lemma trim_digits: "\<forall>c \<in> set s. isDigit c \<Longrightarrow> trim s = s"
  by (simp add: trim_no_space isDigit_not_space)

section \<open>The branches of verifyOtp\<close>

lemma requestOtp_valid:
  assumes "isValidEmail (trim c) \<or> isValidPhone (trim c)"
  shows "requestOtp sha t c st =
           (Inr (), st\<lparr>pending := Some \<lparr>contact = trim c, otpHash = hashOtp sha ''123456'' (trim c),
                                         expiresAt = t + 300000, attempts = 0\<rparr>\<rparr>)"
  using assms by (auto simp: requestOtp_def generateOtp_def TEST_OTP_def Let_def)

lemma requestOtp_pending:
  assumes "fst (requestOtp sha t c st) = Inr ()"
  shows "pending (snd (requestOtp sha t c st)) =
           Some \<lparr>contact = trim c, otpHash = hashOtp sha ''123456'' (trim c),
                 expiresAt = t + 300000, attempts = 0\<rparr>"
  using assms by (auto simp: requestOtp_def generateOtp_def TEST_OTP_def Let_def split: if_splits)

lemma verifyOtp_no_pending:
  "pending st = None \<Longrightarrow> verifyOtp be sha t c w st = (Inl RequestNewOtp, st)"
  by (simp add: verifyOtp_def)

lemma verifyOtp_other_contact:
  "pending st = Some p \<Longrightarrow> contact p \<noteq> trim d \<Longrightarrow> verifyOtp be sha t d w st = (Inl RequestNewOtp, st)"
  by (simp add: verifyOtp_def)

lemma verifyOtp_expired:
  "pending st = Some p \<Longrightarrow> contact p = trim c \<Longrightarrow> expiresAt p < t
     \<Longrightarrow> verifyOtp be sha t c w st = (Inl OtpExpired, st\<lparr>pending := None\<rparr>)"
  by (simp add: verifyOtp_def)

lemma verifyOtp_exhausted:
  "pending st = Some p \<Longrightarrow> contact p = trim c \<Longrightarrow> t \<le> expiresAt p \<Longrightarrow> 4 \<le> attempts p
     \<Longrightarrow> verifyOtp be sha t c w st = (Inl TooManyAttempts, st\<lparr>pending := None\<rparr>)"
  by (simp add: verifyOtp_def)

lemma verifyOtp_format:
  "pending st = Some p \<Longrightarrow> contact p = trim c \<Longrightarrow> t \<le> expiresAt p \<Longrightarrow> attempts p < 4
     \<Longrightarrow> \<not> test otpRegexp (trim w)
     \<Longrightarrow> verifyOtp be sha t c w st = (Inl OtpFormat, st)"
  by (simp add: verifyOtp_def)

lemma verifyOtp_wrong:
  "pending st = Some p \<Longrightarrow> contact p = trim c \<Longrightarrow> t \<le> expiresAt p \<Longrightarrow> attempts p < 4
     \<Longrightarrow> test otpRegexp (trim w) \<Longrightarrow> hashOtp sha (trim w) (trim c) \<noteq> otpHash p
     \<Longrightarrow> verifyOtp be sha t c w st =
           (Inl IncorrectOtp, st\<lparr>pending := Some (p\<lparr>attempts := attempts p + 1\<rparr>)\<rparr>)"
  by (simp add: verifyOtp_def)

lemma verifyOtp_unconfigured:
  "pending st = Some p \<Longrightarrow> contact p = trim c \<Longrightarrow> t \<le> expiresAt p \<Longrightarrow> attempts p < 4
     \<Longrightarrow> test otpRegexp (trim w) \<Longrightarrow> hashOtp sha (trim w) (trim c) = otpHash p
     \<Longrightarrow> \<not> isSupabaseConfigured be
     \<Longrightarrow> verifyOtp be sha t c w st = (Inl DatabaseNotConfigured, st)"
  by (simp add: verifyOtp_def)

lemma verifyOtp_match:
  "pending st = Some p \<Longrightarrow> contact p = trim c \<Longrightarrow> t \<le> expiresAt p \<Longrightarrow> attempts p < 4
     \<Longrightarrow> test otpRegexp (trim w) \<Longrightarrow> hashOtp sha (trim w) (trim c) = otpHash p
     \<Longrightarrow> isSupabaseConfigured be \<Longrightarrow> establishSession be = Inr au
     \<Longrightarrow> findOrCreateUser be t (trim c) au = Inr userId
     \<Longrightarrow> fst (verifyOtp be sha t c w st) = Inr ()
         \<and> pending (snd (verifyOtp be sha t c w st)) = None
         \<and> user (snd (verifyOtp be sha t c w st)) \<noteq> None"
  by (simp add: verifyOtp_def Let_def)

lemma verifyOtps_wrong:
  assumes "pending st = Some p" and "contact p = trim c"
    and "attempts p + int (length calls) \<le> 4"
    and "\<forall>(t, w) \<in> set calls. t \<le> expiresAt p \<and> test otpRegexp (trim w)
           \<and> hashOtp sha (trim w) (trim c) \<noteq> otpHash p"
  shows "verifyOtps be sha c calls st =
           (replicate (length calls) (Inl IncorrectOtp),
            st\<lparr>pending := Some (p\<lparr>attempts := attempts p + int (length calls)\<rparr>)\<rparr>)"
  using assms
proof (induction calls arbitrary: st p)
  case Nil
  then show ?case by simp
next
  case (Cons call calls)
  obtain t w where call: "call = (t, w)" by (cases call)
  let ?p = "p\<lparr>attempts := attempts p + 1\<rparr>"
  let ?st = "st\<lparr>pending := Some ?p\<rparr>"
  have step: "verifyOtp be sha t c w st = (Inl IncorrectOtp, ?st)"
    using Cons.prems call by (intro verifyOtp_wrong) auto
  have "verifyOtps be sha c calls ?st =
          (replicate (length calls) (Inl IncorrectOtp),
           ?st\<lparr>pending := Some (?p\<lparr>attempts := attempts ?p + int (length calls)\<rparr>)\<rparr>)"
    using Cons.prems by (intro Cons.IH) auto
  then show ?case using step call by (simp add: add.assoc)
qed

section \<open>Facts about the sample data\<close>

lemma sample_trim: "trim ''user@example.com'' = ''user@example.com''"
  by (simp add: trim_def isWhiteSpace_def)

lemma sample_trim_space: "trim ''user@example.com '' = ''user@example.com''"
  by (simp add: trim_def isWhiteSpace_def)

lemma sample_email: "isValidEmail ''user@example.com''"
  by code_simp

lemma sample_hash_differs:
  "hashOtp toyDigest ''000000'' ''user@example.com'' \<noteq> hashOtp toyDigest ''123456'' ''user@example.com''"
  by code_simp

lemma sample_code: "test otpRegexp ''123456''" "test otpRegexp ''000000''"
  by (simp_all add: test_otpRegexp isDigit_def charRange_def)

lemma sample_code_trim: "trim ''123456'' = ''123456''" "trim ''000000'' = ''000000''" "trim ''123456 '' = ''123456''"
  by (simp_all add: trim_def isWhiteSpace_def)

lemma requestedState_pending:
  "pending requestedState =
     Some \<lparr>contact = ''user@example.com'',
           otpHash = hashOtp toyDigest ''123456'' ''user@example.com'',
           expiresAt = 301000, attempts = 0\<rparr>"
  by (simp add: requestedState_def requestOtp_valid sample_trim sample_email)

lemma sample_session: "establishSession liveBackend = Inr (SupabaseUser ''anon-1'')"
  by (simp add: establishSession_def liveBackend_def)

lemma sample_user_row:
  "findOrCreateUser liveBackend t ''user@example.com'' (SupabaseUser ''anon-1'') = Inr ''anon-1''"
  by (simp add: findOrCreateUser_def liveBackend_def Let_def)

lemma wrongAttempt_step:
  assumes "pending st = Some p" "contact p = ''user@example.com''" "2000 \<le> expiresAt p"
    "attempts p < 4" "otpHash p = hashOtp toyDigest ''123456'' ''user@example.com''"
  shows "wrongAttempt st = (Inl IncorrectOtp, st\<lparr>pending := Some (p\<lparr>attempts := attempts p + 1\<rparr>)\<rparr>)"
  unfolding wrongAttempt_def using assms
  by (intro verifyOtp_wrong) (simp_all add: sample_trim sample_code sample_code_trim sample_hash_differs)

lemma afterFourWrong_pending:
  "pending afterFourWrong =
     Some \<lparr>contact = ''user@example.com'',
           otpHash = hashOtp toyDigest ''123456'' ''user@example.com'',
           expiresAt = 301000, attempts = 4\<rparr>"
  by (simp add: afterFourWrong_def wrongAttempt_step requestedState_pending)

section \<open>The OTP login flow: results\<close>

text \<open>
  C1. For a pending verification with no attempt used whose contact is \<open>c\<close> trimmed,
  four consecutive calls of \<^verbatim>\<open>verifyOtp\<close> for \<open>c\<close> with wrong well-formed 6-digit codes,
  none after the expiry, each fail with the incorrect-code error and leave the pending
  verification in place with its attempt counter at 4. The fifth call, whatever its
  code, fails, and it is this call that clears the pending verification: with the
  too-many-attempts error when it is not after the expiry, with the expiry error when
  it is. A code is wrong when its digest differs from the stored one.
\<close>

theorem four_wrong_codes_then_lockout:
  assumes "pending st = Some p" and "contact p = trim c" and "attempts p = 0"
    and "length calls = 4"
    and "\<forall>(t, w) \<in> set calls. t \<le> expiresAt p \<and> length w = 6 \<and> (\<forall>ch \<in> set w. isDigit ch)
           \<and> hashOtp sha w (trim c) \<noteq> otpHash p"
  shows "verifyOtps be sha c calls st =
           (replicate 4 (Inl IncorrectOtp), st\<lparr>pending := Some (p\<lparr>attempts := 4\<rparr>)\<rparr>)
         \<and> verifyOtp be sha t5 c w5 (snd (verifyOtps be sha c calls st)) =
             (Inl (if expiresAt p < t5 then OtpExpired else TooManyAttempts),
              st\<lparr>pending := None\<rparr>)"
proof -
  have wrong: "\<forall>(t, w) \<in> set calls. t \<le> expiresAt p \<and> test otpRegexp (trim w)
                 \<and> hashOtp sha (trim w) (trim c) \<noteq> otpHash p"
    using assms(5) by (auto simp: trim_digits test_otpRegexp)
  have run: "verifyOtps be sha c calls st =
               (replicate (length calls) (Inl IncorrectOtp),
                st\<lparr>pending := Some (p\<lparr>attempts := attempts p + int (length calls)\<rparr>)\<rparr>)"
    using assms(1-4) wrong by (intro verifyOtps_wrong) simp_all
  then have four: "verifyOtps be sha c calls st =
               (replicate 4 (Inl IncorrectOtp), st\<lparr>pending := Some (p\<lparr>attempts := 4\<rparr>)\<rparr>)"
    using assms(3,4) by simp
  let ?s4 = "st\<lparr>pending := Some (p\<lparr>attempts := 4\<rparr>)\<rparr>"
  have fifth: "verifyOtp be sha t5 c w5 ?s4 =
          (Inl (if expiresAt p < t5 then OtpExpired else TooManyAttempts), ?s4\<lparr>pending := None\<rparr>)"
  proof (cases "expiresAt p < t5")
    case True
    then have "verifyOtp be sha t5 c w5 ?s4 = (Inl OtpExpired, ?s4\<lparr>pending := None\<rparr>)"
      using assms(2) by (intro verifyOtp_expired [where p = "p\<lparr>attempts := 4\<rparr>"]) simp_all
    then show ?thesis using True by simp
  next
    case False
    then have "verifyOtp be sha t5 c w5 ?s4 = (Inl TooManyAttempts, ?s4\<lparr>pending := None\<rparr>)"
      using assms(2) by (intro verifyOtp_exhausted [where p = "p\<lparr>attempts := 4\<rparr>"]) simp_all
    then show ?thesis using False by simp
  qed
  then show ?thesis using four by simp
qed

text \<open>
  The theorem at the sample request, with the wrong code 000000 four times and the
  right code at the fifth call, before the expiry and after it.
\<close>

theorem four_wrong_codes_then_lockout_witness:
  "verifyOtps liveBackend toyDigest ''user@example.com''
     [(2000, ''000000''), (2001, ''000000''), (2002, ''000000''), (2003, ''000000'')] requestedState =
     (replicate 4 (Inl IncorrectOtp),
      requestedState\<lparr>pending := Some (requestedPending\<lparr>attempts := 4\<rparr>)\<rparr>)
   \<and> verifyOtp liveBackend toyDigest 3000 ''user@example.com'' ''123456''
       (snd (verifyOtps liveBackend toyDigest ''user@example.com''
          [(2000, ''000000''), (2001, ''000000''), (2002, ''000000''), (2003, ''000000'')] requestedState)) =
       (Inl TooManyAttempts, requestedState\<lparr>pending := None\<rparr>)
   \<and> verifyOtp liveBackend toyDigest 400000 ''user@example.com'' ''123456''
       (snd (verifyOtps liveBackend toyDigest ''user@example.com''
          [(2000, ''000000''), (2001, ''000000''), (2002, ''000000''), (2003, ''000000'')] requestedState)) =
       (Inl OtpExpired, requestedState\<lparr>pending := None\<rparr>)"
proof -
  let ?calls = "[(2000, ''000000''), (2001, ''000000''), (2002, ''000000''), (2003, ''000000'')]"
  have h1: "pending requestedState = Some requestedPending"
    by (simp add: requestedState_pending requestedPending_def)
  have h2: "contact requestedPending = trim ''user@example.com''"
    by (simp add: requestedPending_def sample_trim)
  have h3: "attempts requestedPending = 0"
    by (simp add: requestedPending_def)
  have h4: "length ?calls = 4"
    by simp
  have h5: "\<forall>(t, w) \<in> set ?calls. t \<le> expiresAt requestedPending \<and> length w = 6
              \<and> (\<forall>ch \<in> set w. isDigit ch)
              \<and> hashOtp toyDigest w (trim ''user@example.com'') \<noteq> otpHash requestedPending"
    by (simp add: requestedPending_def sample_trim sample_hash_differs isDigit_def charRange_def)
  note w = four_wrong_codes_then_lockout [OF h1 h2 h3 h4 h5, where be = liveBackend
      and ?w5.0 = "''123456''"]
  have e: "expiresAt requestedPending = 301000"
    by (simp add: requestedPending_def)
  have a: "verifyOtps liveBackend toyDigest ''user@example.com'' ?calls requestedState =
     (replicate 4 (Inl IncorrectOtp),
      requestedState\<lparr>pending := Some (requestedPending\<lparr>attempts := 4\<rparr>)\<rparr>)"
    by (rule w [THEN conjunct1])
  have b: "verifyOtp liveBackend toyDigest 3000 ''user@example.com'' ''123456''
       (snd (verifyOtps liveBackend toyDigest ''user@example.com'' ?calls requestedState)) =
       (Inl TooManyAttempts, requestedState\<lparr>pending := None\<rparr>)"
    using w [where ?t5.0 = 3000, THEN conjunct2] by (simp only: e) simp
  have c: "verifyOtp liveBackend toyDigest 400000 ''user@example.com'' ''123456''
       (snd (verifyOtps liveBackend toyDigest ''user@example.com'' ?calls requestedState)) =
       (Inl OtpExpired, requestedState\<lparr>pending := None\<rparr>)"
    using w [where ?t5.0 = 400000, THEN conjunct2] by (simp only: e) simp
  show ?thesis
    by (intro conjI a b c)
qed

text \<open>
  After four wrong codes the pending verification is still there: the counter is 4, and
  the fifth call, with the right code, meets the limit and not a missing verification.
\<close>

theorem four_wrong_codes_clear_counterexample:
  "fst (wrongAttempt requestedState) = Inl IncorrectOtp
   \<and> map_option attempts (pending afterFourWrong) = Some 4
   \<and> verifyOtp liveBackend toyDigest 2000 ''user@example.com'' ''123456'' afterFourWrong
       = (Inl TooManyAttempts, afterFourWrong\<lparr>pending := None\<rparr>)"
  by (simp add: wrongAttempt_step requestedState_pending afterFourWrong_pending
      verifyOtp_exhausted sample_trim)

text \<open>
  C4. When the backend is configured, a session is obtained and the row of the user is
  found or created, \<^verbatim>\<open>verifyOtp("user@example.com", "123456")\<close> called before the expiry
  set by \<^verbatim>\<open>requestOtp("user@example.com")\<close> succeeds and clears the pending
  verification; a second call with the same contact and code then fails because no
  pending verification remains, and changes nothing.
\<close>

theorem request_then_verify_once:
  assumes "isSupabaseConfigured be" and "establishSession be = Inr au"
    and "findOrCreateUser be t1 ''user@example.com'' au = Inr userId"
    and "t1 \<le> t0 + 300000"
  shows "let (r0, s1) = requestOtp sha t0 ''user@example.com'' st;
             (r1, s2) = verifyOtp be sha t1 ''user@example.com'' ''123456'' s1;
             (r2, s3) = verifyOtp be2 sha t2 ''user@example.com'' ''123456'' s2
         in r0 = Inr () \<and> r1 = Inr () \<and> pending s2 = None \<and> user s2 \<noteq> None
            \<and> r2 = Inl RequestNewOtp \<and> s3 = s2"
proof -
  let ?c = "''user@example.com''"
  let ?p = "\<lparr>contact = ?c, otpHash = hashOtp sha ''123456'' ?c,
             expiresAt = t0 + 300000, attempts = 0\<rparr>"
  let ?s1 = "st\<lparr>pending := Some ?p\<rparr>"
  have req: "requestOtp sha t0 ?c st = (Inr (), ?s1)"
    using requestOtp_valid [of ?c sha t0 st] by (simp add: sample_trim sample_email)
  have ver: "fst (verifyOtp be sha t1 ?c ''123456'' ?s1) = Inr ()
         \<and> pending (snd (verifyOtp be sha t1 ?c ''123456'' ?s1)) = None
         \<and> user (snd (verifyOtp be sha t1 ?c ''123456'' ?s1)) \<noteq> None"
    using assms
    by (intro verifyOtp_match [where p = ?p and au = au and userId = userId])
       (simp_all add: sample_trim sample_code sample_code_trim)
  have again: "verifyOtp be2 sha t2 ?c ''123456'' s = (Inl RequestNewOtp, s)" if "pending s = None" for s
    using that by (rule verifyOtp_no_pending)
  show ?thesis
    using req ver again [of "snd (verifyOtp be sha t1 ?c ''123456'' ?s1)"]
    by (simp add: case_prod_beta)
qed

text \<open>The theorem at the sample backend, the second call one millisecond later.\<close>

theorem request_then_verify_once_witness:
  "let (r0, s1) = requestOtp toyDigest 1000 ''user@example.com'' initialState;
       (r1, s2) = verifyOtp liveBackend toyDigest 1000 ''user@example.com'' ''123456'' s1;
       (r2, s3) = verifyOtp liveBackend toyDigest 1001 ''user@example.com'' ''123456'' s2
   in r0 = Inr () \<and> r1 = Inr () \<and> pending s2 = None \<and> user s2 \<noteq> None
      \<and> r2 = Inl RequestNewOtp \<and> s3 = s2"
proof -
  have cfg: "isSupabaseConfigured liveBackend" by (simp add: liveBackend_def)
  have t: "(1000::int) \<le> 1000 + 300000" by simp
  show ?thesis
    by (rule request_then_verify_once [OF cfg sample_session sample_user_row t])
qed

text \<open>
  With an unconfigured backend \<^verbatim>\<open>requestOtp\<close> succeeds all the same, and the right code
  then fails at the guard on \<^verbatim>\<open>isSupabaseConfigured\<close>; the pending verification stays.
\<close>

theorem request_then_verify_counterexample:
  "fst (requestOtp toyDigest 1000 ''user@example.com'' initialState) = Inr ()
   \<and> verifyOtp offlineBackend toyDigest 1000 ''user@example.com'' ''123456'' requestedState
       = (Inl DatabaseNotConfigured, requestedState)
   \<and> pending requestedState \<noteq> None"
proof -
  have "verifyOtp offlineBackend toyDigest 1000 ''user@example.com'' ''123456'' requestedState
       = (Inl DatabaseNotConfigured, requestedState)"
    by (rule verifyOtp_unconfigured [OF requestedState_pending])
       (simp_all add: sample_trim sample_code sample_code_trim offlineBackend_def)
  then show ?thesis
    by (simp add: requestOtp_valid sample_trim sample_email requestedState_pending)
qed

text \<open>
  C6. A successful \<^verbatim>\<open>requestOtp\<close> stores the expiry instant \<open>5 * 60 * 1000\<close> milliseconds
  after the instant it reads. A call of \<^verbatim>\<open>verifyOtp\<close> whose contact, trimmed, is the
  contact of a pending verification whose expiry has passed fails with the expiry error
  and clears the pending verification, whatever the code and the attempt counter; so
  does any call for the requested contact later than five minutes after the request.
\<close>

theorem otp_expires_after_five_minutes:
  "(fst (requestOtp sha t0 c st) = Inr () \<longrightarrow>
      map_option expiresAt (pending (snd (requestOtp sha t0 c st))) = Some (t0 + 5 * 60 * 1000))
   \<and> (pending st' = Some p \<and> contact p = trim c' \<and> expiresAt p < t \<longrightarrow>
        verifyOtp be sha t c' w st' = (Inl OtpExpired, st'\<lparr>pending := None\<rparr>))
   \<and> (fst (requestOtp sha t0 c st) = Inr () \<and> t0 + 5 * 60 * 1000 < t \<longrightarrow>
        verifyOtp be sha t c w (snd (requestOtp sha t0 c st)) =
          (Inl OtpExpired, (snd (requestOtp sha t0 c st))\<lparr>pending := None\<rparr>))"
proof (intro conjI impI)
  assume "fst (requestOtp sha t0 c st) = Inr ()"
  then show "map_option expiresAt (pending (snd (requestOtp sha t0 c st))) = Some (t0 + 5 * 60 * 1000)"
    by (simp add: requestOtp_pending)
next
  assume "pending st' = Some p \<and> contact p = trim c' \<and> expiresAt p < t"
  then show "verifyOtp be sha t c' w st' = (Inl OtpExpired, st'\<lparr>pending := None\<rparr>)"
    by (simp add: verifyOtp_expired)
next
  assume a: "fst (requestOtp sha t0 c st) = Inr () \<and> t0 + 5 * 60 * 1000 < t"
  show "verifyOtp be sha t c w (snd (requestOtp sha t0 c st)) =
          (Inl OtpExpired, (snd (requestOtp sha t0 c st))\<lparr>pending := None\<rparr>)"
    using a by (intro verifyOtp_expired [OF requestOtp_pending]) simp_all
qed

text \<open>The theorem at the sample request, one millisecond after the expiry.\<close>

theorem otp_expires_after_five_minutes_witness:
  "fst (requestOtp toyDigest 1000 ''user@example.com'' initialState) = Inr ()
   \<and> map_option expiresAt (pending requestedState) = Some 301000
   \<and> verifyOtp liveBackend toyDigest 301001 ''user@example.com'' ''123456'' requestedState =
       (Inl OtpExpired, requestedState\<lparr>pending := None\<rparr>)"
  using otp_expires_after_five_minutes [of toyDigest 1000 "''user@example.com''" initialState
      requestedState "the (pending requestedState)" "''user@example.com''" 301001 liveBackend
      "''123456''"]
  by (simp add: requestOtp_valid sample_trim sample_email requestedState_pending
      requestedState_def [symmetric])

text \<open>
  A call for another contact meets the contact test first: it fails with the message
  asking to request a new OTP, and the expired pending verification stays.
\<close>

theorem expired_other_contact_counterexample:
  "map_option expiresAt (pending requestedState) = Some 301000
   \<and> verifyOtp liveBackend toyDigest 999999 ''other@example.com'' ''123456'' requestedState =
       (Inl RequestNewOtp, requestedState)"
proof -
  have "verifyOtp liveBackend toyDigest 999999 ''other@example.com'' ''123456'' requestedState =
       (Inl RequestNewOtp, requestedState)"
    by (rule verifyOtp_other_contact [OF requestedState_pending])
       (simp add: trim_def isWhiteSpace_def)
  then show ?thesis by (simp add: requestedState_pending)
qed

text \<open>
  C7. For a pending verification on contact \<open>c\<close> and a contact \<open>d\<close> whose trimmed form
  differs from \<open>c\<close>, \<^verbatim>\<open>verifyOtp(d, code)\<close> fails with the message asking to request a
  new OTP, which no other failure carries, and leaves the state unchanged: the attempt
  counter is not incremented.
\<close>

theorem other_contact_keeps_pending:
  assumes "pending st = Some p" and "contact p \<noteq> trim d"
  shows "verifyOtp be sha t d w st = (Inl RequestNewOtp, st)
         \<and> errorMessage RequestNewOtp = ''Please request a new OTP for this contact.''
         \<and> (\<forall>e. e \<noteq> RequestNewOtp \<longrightarrow> errorMessage e \<noteq> errorMessage RequestNewOtp)"
proof -
  have "errorMessage e \<noteq> errorMessage RequestNewOtp" if "e \<noteq> RequestNewOtp" for e
    using that by (cases e) simp_all
  then show ?thesis using assms by (simp add: verifyOtp_other_contact)
qed

text \<open>The theorem at the sample request and another address.\<close>

theorem other_contact_keeps_pending_witness:
  "verifyOtp liveBackend toyDigest 2000 ''other@example.com'' ''123456'' requestedState =
     (Inl RequestNewOtp, requestedState)"
  using other_contact_keeps_pending [OF requestedState_pending, of "''other@example.com''"
      liveBackend toyDigest 2000 "''123456''"]
  by (simp add: trim_def isWhiteSpace_def)

text \<open>
  A contact that differs from the pending one by a trailing space only is trimmed to
  it: the call is checked against the pending verification and a wrong code consumes an
  attempt.
\<close>

theorem other_contact_counterexample:
  "''user@example.com '' \<noteq> ''user@example.com''
   \<and> map_option contact (pending requestedState) = Some ''user@example.com''
   \<and> fst (verifyOtp liveBackend toyDigest 2000 ''user@example.com '' ''000000'' requestedState)
       = Inl IncorrectOtp
   \<and> map_option attempts
        (pending (snd (verifyOtp liveBackend toyDigest 2000 ''user@example.com '' ''000000'' requestedState)))
       = Some 1"
proof -
  have "verifyOtp liveBackend toyDigest 2000 ''user@example.com '' ''000000'' requestedState =
          (Inl IncorrectOtp,
           requestedState\<lparr>pending := Some ((the (pending requestedState))\<lparr>attempts :=
              attempts (the (pending requestedState)) + 1\<rparr>)\<rparr>)"
    by (rule verifyOtp_wrong)
       (simp_all add: requestedState_pending sample_trim_space sample_code sample_code_trim
          sample_hash_differs)
  then show ?thesis by (simp add: requestedState_pending)
qed

text \<open>
  C10. For a pending verification with fewer than 4 attempts that has not expired,
  \<^verbatim>\<open>verifyOtp\<close> with the matching contact and a code whose trimmed form is not exactly
  6 digits fails with the format error and leaves the state unchanged: the attempt
  counter is not incremented.
\<close>

theorem malformed_code_keeps_pending:
  assumes "pending st = Some p" and "contact p = trim c" and "attempts p < 4"
    and "t \<le> expiresAt p"
    and "\<not> (length (trim w) = 6 \<and> (\<forall>ch \<in> set (trim w). isDigit ch))"
  shows "verifyOtp be sha t c w st = (Inl OtpFormat, st)
         \<and> errorMessage OtpFormat = ''Enter the 6-digit OTP sent to you.''"
  using assms by (simp add: verifyOtp_format test_otpRegexp)

text \<open>The theorem at the sample request and a code with a letter in it.\<close>

theorem malformed_code_keeps_pending_witness:
  "verifyOtp liveBackend toyDigest 2000 ''user@example.com'' ''12a456'' requestedState =
     (Inl OtpFormat, requestedState)"
  using malformed_code_keeps_pending [OF requestedState_pending, of "''user@example.com''" 2000
      "''12a456''" liveBackend toyDigest]
  by (simp add: sample_trim trim_def isWhiteSpace_def isDigit_def charRange_def)

text \<open>
  A code of seven characters, six digits and a trailing space, is trimmed before the
  format check: it passes the check, and being the right code it logs the user in.
\<close>

theorem malformed_code_counterexample:
  "length ''123456 '' \<noteq> 6
   \<and> map_option attempts (pending requestedState) = Some 0
   \<and> fst (verifyOtp liveBackend toyDigest 2000 ''user@example.com'' ''123456 '' requestedState) = Inr ()"
proof -
  have cfg: "isSupabaseConfigured liveBackend" by (simp add: liveBackend_def)
  have "fst (verifyOtp liveBackend toyDigest 2000 ''user@example.com'' ''123456 '' requestedState) = Inr ()"
    using verifyOtp_match [OF requestedState_pending, of "''user@example.com''" 2000 "''123456 ''"
        toyDigest liveBackend "SupabaseUser ''anon-1''" "''anon-1''"]
    by (simp add: sample_trim sample_code sample_code_trim sample_session sample_user_row cfg)
  then show ?thesis by (simp add: requestedState_pending)
qed

section \<open>The entity access facade: results\<close>

lemma listRead_error: "error r = Some e \<Longrightarrow> fst (listRead label cfg r) = Inr []"
  by (simp add: listRead_def)

lemma rowWrite_error: "cfg \<Longrightarrow> error r = Some e \<Longrightarrow> fst (rowWrite label cfg r) = Inl e"
  by (simp add: rowWrite_def)

text \<open>
  C5. When the store answers the query of a list read (\<^verbatim>\<open>getProducts\<close>, \<^verbatim>\<open>getOrders\<close>,
  \<^verbatim>\<open>getInquiries\<close>) with an error, the read returns the empty sequence and throws
  nothing. When the store answers the query of a write (create, update, delete, upsert)
  with an error, the write throws that error to its caller.
\<close>

theorem reads_swallow_writes_propagate:
  "(error r1 = Some e \<longrightarrow> fst (getProducts cfg r1) = Inr [])
   \<and> (error (s2 (if truthy u2 then u2 else None)) = Some e \<longrightarrow> fst (getOrders cfg s2 u2) = Inr [])
   \<and> (error (s3 (if truthy u3 then u3 else None)) = Some e \<longrightarrow>
        fst (getInquiries cfg s3 u3) = Inr [])
   \<and> (cfg \<and> error (s4 product) = Some e \<longrightarrow> fst (createProduct cfg s4 product) = Inl e)
   \<and> (cfg \<and> error (s5 i5 updates) = Some e \<longrightarrow> fst (updateProduct cfg s5 i5 updates) = Inl e)
   \<and> (cfg \<and> error (s6 i6) = Some e \<longrightarrow> fst (deleteProduct cfg s6 i6) = Inl e)
   \<and> (cfg \<and> error (s7 order) = Some e \<longrightarrow> fst (createOrder cfg s7 order) = Inl e)
   \<and> (cfg \<and> error (s8 i8 (status8, if truthy paymentStatus then paymentStatus else None)) = Some e
        \<longrightarrow> fst (updateOrderStatus cfg s8 i8 status8 paymentStatus) = Inl e)
   \<and> (cfg \<and> error (s9 (inquiry, ''pending'')) = Some e \<longrightarrow>
        fst (createInquiry cfg s9 inquiry) = Inl e)
   \<and> (cfg \<and> error (s10 i10 status10) = Some e \<longrightarrow>
        fst (updateInquiryStatus cfg s10 i10 status10) = Inl e)
   \<and> (cfg \<and> error (s11 (u11, profile, True)) = Some e \<longrightarrow>
        fst (upsertUserProfile cfg s11 u11 profile) = Inl e)"
proof (intro conjI impI)
  show "fst (getProducts cfg r1) = Inr []" if "error r1 = Some e"
    using that by (simp add: getProducts_def listRead_error)
  show "fst (getOrders cfg s2 u2) = Inr []"
    if "error (s2 (if truthy u2 then u2 else None)) = Some e"
    using that unfolding getOrders_def by (rule listRead_error)
  show "fst (getInquiries cfg s3 u3) = Inr []"
    if "error (s3 (if truthy u3 then u3 else None)) = Some e"
    using that unfolding getInquiries_def by (rule listRead_error)
  show "fst (createProduct cfg s4 product) = Inl e" if "cfg \<and> error (s4 product) = Some e"
    using that by (simp add: createProduct_def rowWrite_error)
  show "fst (updateProduct cfg s5 i5 updates) = Inl e" if "cfg \<and> error (s5 i5 updates) = Some e"
    using that by (simp add: updateProduct_def rowWrite_error)
  show "fst (deleteProduct cfg s6 i6) = Inl e" if "cfg \<and> error (s6 i6) = Some e"
    using that by (simp add: deleteProduct_def)
  show "fst (createOrder cfg s7 order) = Inl e" if "cfg \<and> error (s7 order) = Some e"
    using that by (simp add: createOrder_def rowWrite_error)
  show "fst (updateOrderStatus cfg s8 i8 status8 paymentStatus) = Inl e"
    if "cfg \<and> error (s8 i8 (status8, if truthy paymentStatus then paymentStatus else None)) = Some e"
    using that by (simp add: updateOrderStatus_def rowWrite_error)
  show "fst (createInquiry cfg s9 inquiry) = Inl e"
    if "cfg \<and> error (s9 (inquiry, ''pending'')) = Some e"
    using that by (simp add: createInquiry_def rowWrite_error)
  show "fst (updateInquiryStatus cfg s10 i10 status10) = Inl e"
    if "cfg \<and> error (s10 i10 status10) = Some e"
    using that by (simp add: updateInquiryStatus_def rowWrite_error)
  show "fst (upsertUserProfile cfg s11 u11 profile) = Inl e"
    if "cfg \<and> error (s11 (u11, profile, True)) = Some e"
    using that by (simp add: upsertUserProfile_def rowWrite_error)
qed

lemma failingStore_error: "error (failingStore e q) = Some e" "error (failingStore2 e q u) = Some e"
  by (simp_all add: failingStore_def failingStore2_def failing_def)

text \<open>The theorem at stores that fail with a transport error.\<close>

theorem reads_swallow_writes_propagate_witness:
  "getProducts True (failing transportError) =
     (Inr [], [ConsoleError ''Error fetching products:'' transportError])
   \<and> fst (getOrders True (failingStore transportError :: string option \<Rightarrow> unit list response)
            (Some ''u1'')) = Inr []
   \<and> fst (getInquiries True (failingStore transportError :: string option \<Rightarrow> unit list response)
            None) = Inr []
   \<and> createProduct True (failingStore transportError) (sampleProduct ''p1'') =
       (Inl transportError, [ConsoleError ''Error creating product:'' transportError])
   \<and> fst (updateProduct True (failingStore2 transportError) ''p1'' [(''name'', ''x'')])
       = Inl transportError
   \<and> fst (deleteProduct True (failingStore transportError) ''p1'') = Inl transportError
   \<and> fst (createOrder True (failingStore transportError :: string \<Rightarrow> unit response) ''order'')
       = Inl transportError
   \<and> fst (updateOrderStatus True
            (failingStore2 transportError :: string \<Rightarrow> string \<times> string option \<Rightarrow> unit response)
            ''o1'' ''shipped'' None) = Inl transportError
   \<and> fst (createInquiry True (failingStore transportError :: string \<times> string \<Rightarrow> unit response)
            ''inquiry'') = Inl transportError
   \<and> fst (updateInquiryStatus True
            (failingStore2 transportError :: string \<Rightarrow> string \<Rightarrow> unit response)
            ''i1'' ''contacted'') = Inl transportError
   \<and> fst (upsertUserProfile True
            (failingStore transportError :: string \<times> string \<times> bool \<Rightarrow> unit response)
            ''u1'' ''profile'') = Inl transportError"
proof -
  note w = reads_swallow_writes_propagate [where cfg = True and e = transportError
      and ?r1.0 = "failing transportError"
      and ?s2.0 = "failingStore transportError :: string option \<Rightarrow> unit list response"
      and ?s3.0 = "failingStore transportError :: string option \<Rightarrow> unit list response"
      and ?s4.0 = "failingStore transportError" and product = "sampleProduct ''p1''"
      and ?s5.0 = "failingStore2 transportError" and ?i5.0 = "''p1''" and updates = "[(''name'', ''x'')]"
      and ?s6.0 = "failingStore transportError" and ?i6.0 = "''p1''"
      and ?s7.0 = "failingStore transportError :: string \<Rightarrow> unit response" and order = "''order''"
      and ?s8.0 = "failingStore2 transportError :: string \<Rightarrow> string \<times> string option \<Rightarrow> unit response"
      and ?i8.0 = "''o1''" and ?status8.0 = "''shipped''" and paymentStatus = None
      and ?s9.0 = "failingStore transportError :: string \<times> string \<Rightarrow> unit response"
      and inquiry = "''inquiry''"
      and ?s10.0 = "failingStore2 transportError :: string \<Rightarrow> string \<Rightarrow> unit response"
      and ?i10.0 = "''i1''" and ?status10.0 = "''contacted''"
      and ?s11.0 = "failingStore transportError :: string \<times> string \<times> bool \<Rightarrow> unit response"
      and ?u11.0 = "''u1''" and profile = "''profile''" and ?u2.0 = "Some ''u1''" and ?u3.0 = None]
  have a: "getProducts True (failing transportError) =
     (Inr [], [ConsoleError ''Error fetching products:'' transportError])"
    by (simp add: getProducts_def listRead_def failing_def)
  have b: "createProduct True (failingStore transportError) (sampleProduct ''p1'') =
       (Inl transportError, [ConsoleError ''Error creating product:'' transportError])"
    by (simp add: createProduct_def rowWrite_def failingStore_def failing_def)
  show ?thesis
    using w a b by (simp add: failingStore_error)
qed

text \<open>
  C2. For every id, a read by id (\<^verbatim>\<open>getProductById\<close>, \<^verbatim>\<open>getOrderById\<close>,
  \<^verbatim>\<open>getUserProfile\<close>) whose query the store answers with an error returns null and
  throws nothing; for \<^verbatim>\<open>getUserProfile\<close> the code \<^verbatim>\<open>PGRST116\<close> is not such an error: the
  read returns the data of the answer, null when no row was found, and logs nothing.
  Zero rows are the normal not-found signal: the empty answer of \<^verbatim>\<open>.maybeSingle()\<close>
  gives null with no line on the console in all three.
\<close>

theorem byId_reads_return_null:
  "(error (s1 i1) = Some e \<longrightarrow> fst (getProductById cfg s1 i1) = Inr None)
   \<and> (error (s2 i2) = Some e \<longrightarrow> fst (getOrderById cfg s2 i2) = Inr None)
   \<and> (error (s3 i3) = Some e \<and> code e \<noteq> ''PGRST116'' \<longrightarrow>
        fst (getUserProfile cfg s3 i3) = Inr None)
   \<and> (error (s4 i4) = Some e \<and> code e = ''PGRST116'' \<longrightarrow>
        getUserProfile cfg s4 i4 = (Inr (if cfg then data (s4 i4) else None), []))
   \<and> (s5 i5 = noRows \<longrightarrow> getProductById cfg s5 i5 = (Inr None, []))
   \<and> (s6 i6 = noRows \<longrightarrow> getOrderById cfg s6 i6 = (Inr None, []))
   \<and> (s7 i7 = noRows \<longrightarrow> getUserProfile cfg s7 i7 = (Inr None, []))"
  by (simp add: getProductById_def getOrderById_def getUserProfile_def noRows_def Let_def)

text \<open>The theorem at a store that fails, one that reports \<^verbatim>\<open>PGRST116\<close> and an empty one.\<close>

theorem byId_reads_return_null_witness:
  "getProductById True (failingStore transportError) ''p1'' =
     (Inr None, [ConsoleError ''Error fetching product:'' transportError])
   \<and> fst (getOrderById True (failingStore transportError :: string \<Rightarrow> unit response) ''o1'') = Inr None
   \<and> fst (getUserProfile True (failingStore transportError :: string \<Rightarrow> unit response) ''u1'')
       = Inr None
   \<and> getUserProfile True (failingStore noRowsError :: string \<Rightarrow> unit response) ''u1'' = (Inr None, [])
   \<and> getProductById True emptyStore ''p1'' = (Inr None, [])
   \<and> getOrderById True (emptyStore :: string \<Rightarrow> unit response) ''o1'' = (Inr None, [])
   \<and> getUserProfile True (emptyStore :: string \<Rightarrow> unit response) ''u1'' = (Inr None, [])"
proof -
  note w = byId_reads_return_null [where cfg = True and e = transportError
      and ?s1.0 = "failingStore transportError" and ?i1.0 = "''p1''"
      and ?s2.0 = "failingStore transportError :: string \<Rightarrow> unit response" and ?i2.0 = "''o1''"
      and ?s3.0 = "failingStore transportError :: string \<Rightarrow> unit response" and ?i3.0 = "''u1''"
      and ?s5.0 = emptyStore and ?i5.0 = "''p1''"
      and ?s6.0 = "emptyStore :: string \<Rightarrow> unit response" and ?i6.0 = "''o1''"
      and ?s7.0 = "emptyStore :: string \<Rightarrow> unit response" and ?i7.0 = "''u1''"
      and ?s4.0 = "failingStore transportError :: string \<Rightarrow> unit response" and ?i4.0 = "''u1''"]
  note v = byId_reads_return_null [where cfg = True and e = noRowsError
      and ?s4.0 = "failingStore noRowsError :: string \<Rightarrow> unit response" and ?i4.0 = "''u1''"
      and ?s1.0 = "failingStore noRowsError :: string \<Rightarrow> Product response" and ?i1.0 = "''p1''"
      and ?s2.0 = "failingStore noRowsError :: string \<Rightarrow> unit response" and ?i2.0 = "''o1''"
      and ?s3.0 = "failingStore noRowsError :: string \<Rightarrow> unit response" and ?i3.0 = "''u1''"
      and ?s5.0 = "emptyStore :: string \<Rightarrow> Product response" and ?i5.0 = "''p1''"
      and ?s6.0 = "emptyStore :: string \<Rightarrow> unit response" and ?i6.0 = "''o1''"
      and ?s7.0 = "emptyStore :: string \<Rightarrow> unit response" and ?i7.0 = "''u1''"]
  have a: "getProductById True (failingStore transportError) ''p1'' =
     (Inr None, [ConsoleError ''Error fetching product:'' transportError])"
    by (simp add: getProductById_def failingStore_def failing_def)
  have b: "data (failingStore noRowsError ''u1'' :: unit response) = None"
    by (simp add: failingStore_def failing_def)
  show ?thesis
    using w v a b
    by (simp add: failingStore_error emptyStore_def transportError_def noRowsError_def)
qed

section \<open>The change-feed subscriptions: results\<close>

lemma length_leave: "length (leave h chans) = length chans"
  by (simp add: leave_def)

lemma joined_leave:
  "i < length chans \<Longrightarrow> joined (leave h chans ! i) = (joined (chans ! i) \<and> i \<noteq> h)"
  by (auto simp: leave_def nth_list_update)

lemma length_fold_leave: "length (fold leave hs chans) = length chans"
  by (induction hs arbitrary: chans) (simp_all add: length_leave)

lemma joined_fold_leave:
  "i < length chans \<Longrightarrow> joined (fold leave hs chans ! i) = (joined (chans ! i) \<and> i \<notin> set hs)"
  by (induction hs arbitrary: chans) (auto simp: length_leave joined_leave)

lemma findChannel_Some:
  assumes "findChannel n chans = Some h"
  shows "h < length chans" and "joined (chans ! h)" and "topic (chans ! h) = n"
  using assms by (auto simp: findChannel_def find_Some_iff)

lemma findChannel_None:
  assumes "findChannel n chans = None" and "h < length chans" and "joined (chans ! h)"
  shows "topic (chans ! h) \<noteq> n"
  using assms by (auto simp: findChannel_def find_None_iff)

lemma subscribe_configured:
  "\<exists>tbl flt cb. subscribe True call db = openChannel (channelNameOf call) tbl flt cb db"
  by (cases call)
     (auto simp: subscribeToProducts_def subscribeToOrders_def subscribeToInquiries_def Let_def)

lemma subscribe_unconfigured: "subscribe False call db = (Noop, db)"
  by (cases call)
     (simp_all add: subscribeToProducts_def subscribeToOrders_def subscribeToInquiries_def)

lemma openChannel_reuse:
  assumes "findChannel n (opened db) = Some h"
  shows "fst (openChannel n tbl flt cb db) = Unsubscribe n h"
    and "length (opened (snd (openChannel n tbl flt cb db))) = length (opened db)"
  using assms by (simp_all add: openChannel_def Let_def)

lemma openChannel_tracked:
  assumes "tracked db"
  shows "tracked (snd (openChannel n tbl flt cb db))"
proof (cases "findChannel n (opened db)")
  case None
  let ?db = "snd (openChannel n tbl flt cb db)"
  have op: "opened ?db = opened db @ [\<lparr>topic = n,
              listeners = [\<lparr>table = tbl, rowFilter = flt, callback = cb\<rparr>], joined = True\<rparr>]"
    and ch: "map_of (channels ?db) = (map_of (channels db))(n \<mapsto> length (opened db))"
    using None by (simp_all add: openChannel_def Let_def update_conv')
  show ?thesis
    unfolding tracked_def
  proof (intro allI impI)
    fix h assume h: "h < length (opened ?db)" and j: "joined (opened ?db ! h)"
    show "map_of (channels ?db) (topic (opened ?db ! h)) = Some h"
    proof (cases "h < length (opened db)")
      case True
      then have "joined (opened db ! h)" using j op by (simp add: nth_append)
      then have "topic (opened db ! h) \<noteq> n" and "map_of (channels db) (topic (opened db ! h)) = Some h"
        using findChannel_None [OF None True] assms True by (auto simp: tracked_def)
      then show ?thesis using True op ch by (simp add: nth_append)
    next
      case False
      then have "h = length (opened db)" using h op by simp
      then show ?thesis using op ch by simp
    qed
  qed
next
  case (Some h0)
  let ?db = "snd (openChannel n tbl flt cb db)"
  note f = findChannel_Some [OF Some]
  have len: "length (opened ?db) = length (opened db)"
    and ch: "map_of (channels ?db) = (map_of (channels db))(n \<mapsto> h0)"
    using Some by (simp_all add: openChannel_def Let_def update_conv')
  have same: "joined (opened ?db ! h) = joined (opened db ! h)"
             "topic (opened ?db ! h) = topic (opened db ! h)" if "h < length (opened db)" for h
    using Some that f by (auto simp: openChannel_def Let_def nth_list_update)
  show ?thesis
    unfolding tracked_def
  proof (intro allI impI)
    fix h assume h: "h < length (opened ?db)" and j: "joined (opened ?db ! h)"
    then have h': "h < length (opened db)" and j': "joined (opened db ! h)"
      using len same by simp_all
    then have m: "map_of (channels db) (topic (opened db ! h)) = Some h"
      using assms by (simp add: tracked_def)
    have m0: "map_of (channels db) n = Some h0"
      using assms f by (auto simp: tracked_def)
    show "map_of (channels ?db) (topic (opened ?db ! h)) = Some h"
      using m m0 ch same(2) [OF h'] by auto
  qed
qed

lemma subscribe_tracked: "tracked db \<Longrightarrow> tracked (snd (subscribe cfg call db))"
proof (cases cfg)
  case True
  assume t: "tracked db"
  obtain tbl flt cb where
    "subscribe True call db = openChannel (channelNameOf call) tbl flt cb db"
    using subscribe_configured [of call db] by auto
  then show ?thesis using True openChannel_tracked [OF t] by simp
next
  case False
  assume "tracked db"
  then show ?thesis using False by (simp add: subscribe_unconfigured)
qed

lemma subscribeEach_tracked: "tracked db \<Longrightarrow> tracked (subscribeEach cfg calls db)"
  by (induction calls arbitrary: db) (simp_all add: subscribe_tracked)

lemma unsubscribeAll_tracked:
  assumes "tracked db"
  shows "\<forall>ch \<in> set (opened (unsubscribeAll db)). \<not> joined ch"
proof
  fix ch assume "ch \<in> set (opened (unsubscribeAll db))"
  then obtain i where i: "i < length (opened db)"
      and ch: "ch = fold leave (map snd (channels db)) (opened db) ! i"
    by (auto simp: unsubscribeAll_def in_set_conv_nth length_fold_leave)
  have "i \<in> snd ` set (channels db)" if "joined (opened db ! i)"
  proof -
    have "map_of (channels db) (topic (opened db ! i)) = Some i"
      using assms i that by (simp add: tracked_def)
    then have "(topic (opened db ! i), i) \<in> set (channels db)"
      by (rule map_of_SomeD)
    then show ?thesis by force
  qed
  then show "\<not> joined ch"
    using i unfolding ch by (auto simp: joined_fold_leave)
qed

lemma sample_subscriptions:
  "opened (subscribeEach True [ToProducts ''page'', ToProducts ''admin''] emptyDatabase) =
     [\<lparr>topic = ''products_realtime'',
       listeners = [\<lparr>table = ''products'', rowFilter = None, callback = ''page''\<rparr>,
                    \<lparr>table = ''products'', rowFilter = None, callback = ''admin''\<rparr>],
       joined = True\<rparr>]"
  by (simp add: subscribeToProducts_def openChannel_def findChannel_def emptyDatabase_def Let_def)

text \<open>
  C3. After any sequence of subscribe calls on a fresh database, \<^verbatim>\<open>unsubscribeAll\<close>
  leaves the registry empty and no channel joined. A subscription under a channel name
  that is open does not open another channel: it is handed the channel open under that
  name, and the number of channels stays the same.
\<close>

theorem unsubscribeAll_closes_every_channel:
  "channels (unsubscribeAll (subscribeEach cfg calls emptyDatabase)) = []
   \<and> (\<forall>ch \<in> set (opened (unsubscribeAll (subscribeEach cfg calls emptyDatabase))). \<not> joined ch)
   \<and> (findChannel (channelNameOf call) (opened db) = Some h \<longrightarrow>
         fst (subscribe True call db) = Unsubscribe (channelNameOf call) h
         \<and> length (opened (snd (subscribe True call db))) = length (opened db))"
proof (intro conjI impI)
  show "channels (unsubscribeAll (subscribeEach cfg calls emptyDatabase)) = []"
    by (simp add: unsubscribeAll_def)
  have "tracked (subscribeEach cfg calls (emptyDatabase :: 'a RealtimeDatabase))"
    by (rule subscribeEach_tracked) (simp add: emptyDatabase_def tracked_def)
  then show "\<forall>ch \<in> set (opened (unsubscribeAll (subscribeEach cfg calls emptyDatabase))). \<not> joined ch"
    by (rule unsubscribeAll_tracked)
next
  assume f: "findChannel (channelNameOf call) (opened db) = Some h"
  obtain tbl flt cb where s:
    "subscribe True call db = openChannel (channelNameOf call) tbl flt cb db"
    using subscribe_configured [of call db] by auto
  show "fst (subscribe True call db) = Unsubscribe (channelNameOf call) h"
    and "length (opened (snd (subscribe True call db))) = length (opened db)"
    using openChannel_reuse [OF f] s by simp_all
qed

text \<open>The theorem at two subscriptions to the products feed.\<close>

theorem unsubscribeAll_closes_every_channel_witness:
  "channels (unsubscribeAll (subscribeEach True [ToProducts ''page'', ToProducts ''admin''] emptyDatabase)) = []
   \<and> map joined (opened (unsubscribeAll
        (subscribeEach True [ToProducts ''page'', ToProducts ''admin''] emptyDatabase))) = [False]
   \<and> fst (subscribe True (ToProducts ''admin'') (snd (subscribe True (ToProducts ''page'') emptyDatabase)))
       = Unsubscribe ''products_realtime'' 0"
proof -
  let ?calls = "[ToProducts ''page'', ToProducts ''admin'']"
  let ?db1 = "snd (subscribe True (ToProducts ''page'') emptyDatabase)"
  have f: "findChannel (channelNameOf (ToProducts ''admin'')) (opened ?db1) = Some 0"
    by (simp add: subscribeToProducts_def openChannel_def findChannel_def emptyDatabase_def Let_def)
  note w = unsubscribeAll_closes_every_channel [of True ?calls "ToProducts ''admin''" ?db1 0]
  have len: "length (opened (unsubscribeAll (subscribeEach True ?calls emptyDatabase))) = 1"
    by (simp add: unsubscribeAll_def length_fold_leave sample_subscriptions
        del: subscribeEach.simps)
  have "\<forall>ch \<in> set (opened (unsubscribeAll (subscribeEach True ?calls emptyDatabase))). \<not> joined ch"
    using w by blast
  then have "map joined (opened (unsubscribeAll (subscribeEach True ?calls emptyDatabase)))
               = replicate 1 False"
    using len by (intro replicate_eqI) auto
  moreover have "channels (unsubscribeAll (subscribeEach True ?calls emptyDatabase)) = []"
    using w by blast
  moreover have "fst (subscribe True (ToProducts ''admin'') ?db1) = Unsubscribe ''products_realtime'' 0"
    using w f by simp
  ultimately show ?thesis by (simp del: subscribeEach.simps subscribe.simps)
qed

text \<open>
  Two subscriptions to the products feed share one channel, which carries both
  listeners; they do not open two independent channels.
\<close>

theorem independent_channels_counterexample:
  "length (opened (subscribeEach True [ToProducts ''page'', ToProducts ''admin''] emptyDatabase)) = 1
   \<and> map callback (listeners (hd (opened
        (subscribeEach True [ToProducts ''page'', ToProducts ''admin''] emptyDatabase)))) = [''page'', ''admin'']"
  by (simp add: sample_subscriptions del: subscribeEach.simps)

text \<open>
  C8. When the backend is not configured, each of the three subscribe methods returns
  the no-op function and leaves the database as it is; running that function changes
  nothing; and since no sequence of such calls opens a channel, no notification reaches
  any callback.
\<close>

theorem unconfigured_subscribe_is_inert:
  "subscribeToProducts False cb db = (Noop, db)
   \<and> subscribeToOrders False cb userId db = (Noop, db)
   \<and> subscribeToInquiries False cb userId db = (Noop, db)
   \<and> runUnsubscribe Noop db' = db'
   \<and> subscribeEach False calls db = db
   \<and> notified tbl passes (subscribeEach False calls emptyDatabase) = []"
proof -
  have one: "snd (subscribe False call d) = d" for call and d :: "'a RealtimeDatabase"
    by (cases call)
       (simp_all add: subscribeToProducts_def subscribeToOrders_def subscribeToInquiries_def)
  have each: "subscribeEach False cs d = d" for cs and d :: "'a RealtimeDatabase"
    by (induction cs arbitrary: d) (simp_all add: one)
  show ?thesis
    by (simp add: subscribeToProducts_def subscribeToOrders_def subscribeToInquiries_def each
        notified_def emptyDatabase_def)
qed

section \<open>The consumer of the product feed: results\<close>

text \<open>
  C9. For a projected list \<open>prev\<close> with no element of the id of row \<open>r\<close>, the callback
  applied to an INSERT of \<open>r\<close> and then to a DELETE whose old image has the id of \<open>r\<close>
  yields a list with no element of that id; it is \<open>prev\<close> again.
\<close>

theorem insert_then_delete_leaves_no_trace:
  assumes "\<forall>p \<in> set prev. id' p \<noteq> id' r" and "id' gone = id' r"
  shows "productsCallback \<lparr>eventType = DELETE, new = n, old = Some gone\<rparr>
           (productsCallback \<lparr>eventType = INSERT, new = Some r, old = ol\<rparr> prev) = prev
         \<and> (\<forall>p \<in> set (productsCallback \<lparr>eventType = DELETE, new = n, old = Some gone\<rparr>
                  (productsCallback \<lparr>eventType = INSERT, new = Some r, old = ol\<rparr> prev)).
               id' p \<noteq> id' r)"
proof -
  have "filter (\<lambda>p. id' p \<noteq> id' r) prev = prev"
    using assms(1) by (simp add: filter_id_conv)
  then show ?thesis
    using assms by (simp add: productsCallback_def)
qed

text \<open>The theorem at a list of one product and a second product inserted and deleted.\<close>

theorem insert_then_delete_leaves_no_trace_witness:
  "productsCallback \<lparr>eventType = DELETE, new = None, old = Some (sampleProduct ''p2'')\<rparr>
     (productsCallback \<lparr>eventType = INSERT, new = Some (sampleProduct ''p2''), old = None\<rparr>
        [sampleProduct ''p1'']) = [sampleProduct ''p1'']"
  using insert_then_delete_leaves_no_trace [of "[sampleProduct ''p1'']" "sampleProduct ''p2''"
      "sampleProduct ''p2''" None None]
  by (simp add: sampleProduct_def)

end
